theory Spec2Isabelle
  imports Main "HOL-Library.Word"
begin

unbundle bit_operations_syntax

section \<open>Machine types and the environment\<close>

type_synonym u8 = "8 word"
type_synonym u32 = "32 word"

text \<open>
  The hardware the engine reads: the millisecond clock \<open>millis()\<close> (truncated to 32 bits
  by the cast in \<open>nextFrame\<close>), the analog inputs \<open>analogRead(pin)\<close> (a C \<open>int\<close>) and the
  three input port registers of the Atmega32U4 read by \<open>arduboyButtons\<close>.  One value of
  this record is the hardware as one call sees it.
\<close>

record hw =
  millis :: u32
  analogRead :: "u8 \<Rightarrow> int"
  PINF :: u8
  PINE :: u8
  PINB :: u8

text \<open>
  What \<open>core.h\<close> and the build supply: the numeric values of the button constants, which
  the source only names, and whether \<open>__AVR_ATmega32U4__\<close> is defined.
\<close>

record config =
  BUTTON_NONE :: u8
  BUTTON_DOWN :: u8
  BUTTON_LEFT :: u8
  BUTTON_RIGHT :: u8
  BUTTON_UP :: u8
  BUTTON_A :: u8
  BUTTON_B :: u8
  AVR_ATmega32U4 :: bool

section \<open>NanoEngineBase\<close>

text \<open>
  A value of type \<open>TNanoEngineGetButtons\<close> is a non-null pointer to a function
  \<open>uint8_t (*)(void)\<close>: one of the two handlers of the class, or a handler of the
  application, which reads the hardware and returns a button mask.  A null pointer is
  \<open>None\<close> in the field that holds it.
\<close>

datatype TNanoEngineGetButtons =
  FnZKeypadButtons
| FnArduboyButtons
| FnCustom "hw \<Rightarrow> u8"

text \<open>Pointers to \<open>void (*)(void)\<close> functions of the application are code addresses.\<close>

type_synonym TLoopCallback = nat
type_synonym TNanoEngineOnDraw = nat

text \<open>The static members of the class.\<close>

record NanoEngineBase =
  m_frameDurationMs :: u8
  m_fps :: u8
  m_cpuLoad :: u8
  m_lastFrameTs :: u32
  m_onDraw :: "TNanoEngineOnDraw option"
  m_onButtons :: "TNanoEngineGetButtons option"
  m_loop :: "TLoopCallback option"
  s_zkeypadPin :: u8

definition ENGINE_DEFAULT_FPS :: u8 where
  "ENGINE_DEFAULT_FPS = 30"

text \<open>
  The static initialisers.  \<open>m_lastFrameTs\<close> and \<open>s_zkeypadPin\<close> have none and are
  zero-initialised.
\<close>

definition static_init :: NanoEngineBase where
  "static_init =
     \<lparr> m_frameDurationMs = of_nat (1000 div unat ENGINE_DEFAULT_FPS),
       m_fps = ENGINE_DEFAULT_FPS,
       m_cpuLoad = 0,
       m_lastFrameTs = 0,
       m_onDraw = None,
       m_onButtons = None,
       m_loop = None,
       s_zkeypadPin = 0 \<rparr>"

datatype error = DivisionByZero | NullFunctionCall

text \<open>\<open>NanoEngineBase::begin()\<close>, under a name that is not a keyword here.\<close>

definition begin_engine :: "hw \<Rightarrow> NanoEngineBase \<Rightarrow> NanoEngineBase" where
  "begin_engine h e = e\<lparr>m_lastFrameTs := millis h\<rparr>"

text \<open>
  \<open>1000/fps\<close> is an \<open>int\<close> division after promotion of \<open>fps\<close>; the quotient is
  converted to \<open>uint8_t\<close> by the assignment, which keeps its low eight bits.  Dividing by
  zero has no defined result.
\<close>

definition setFrameRate :: "u8 \<Rightarrow> NanoEngineBase \<Rightarrow> error + NanoEngineBase" where
  "setFrameRate fps e =
     (if fps = 0 then Inl DivisionByZero
      else Inr (e\<lparr>m_fps := fps, m_frameDurationMs := of_nat (1000 div unat fps)\<rparr>))"

text \<open>
  \<open>nextFrame\<close> takes the bodies of the application's loop callbacks, by address, and
  returns the value of \<open>needUpdate\<close>, the callbacks it has invoked, in order, and the
  static members after the call.  The comparison is between a \<open>uint32_t\<close> and a promoted
  \<open>uint8_t\<close>, hence unsigned on 32 bits.
\<close>

definition nextFrame ::
  "(TLoopCallback \<Rightarrow> NanoEngineBase \<Rightarrow> NanoEngineBase) \<Rightarrow> hw \<Rightarrow> NanoEngineBase
     \<Rightarrow> bool \<times> TLoopCallback list \<times> NanoEngineBase" where
  "nextFrame body h e =
     (let needUpdate = (ucast (m_frameDurationMs e) \<le> millis h - m_lastFrameTs e) in
      if needUpdate \<and> m_loop e \<noteq> None
      then (needUpdate, [the (m_loop e)], body (the (m_loop e)) e)
      else (needUpdate, [], e))"

definition zkeypadButtons :: "config \<Rightarrow> hw \<Rightarrow> NanoEngineBase \<Rightarrow> u8" where
  "zkeypadButtons c h e =
     (let buttonValue = analogRead h (s_zkeypadPin e) in
      if buttonValue < 100 then BUTTON_RIGHT c
      else if buttonValue < 200 then BUTTON_UP c
      else if buttonValue < 400 then BUTTON_DOWN c
      else if buttonValue < 600 then BUTTON_LEFT c
      else if buttonValue < 800 then BUTTON_A c
      else BUTTON_NONE c)"

definition arduboyButtons :: "config \<Rightarrow> hw \<Rightarrow> u8" where
  "arduboyButtons c h =
     (if AVR_ATmega32U4 c
      then drop_bit 4 (NOT (PINF h) AND 0xF0)
           OR drop_bit 2 (NOT (PINE h) AND 0x40)
           OR push_bit 1 (NOT (PINB h) AND 0x10)
      else 0)"

text \<open>Calling through a non-null \<open>m_onButtons\<close>.\<close>

fun call_buttons :: "config \<Rightarrow> hw \<Rightarrow> NanoEngineBase \<Rightarrow> TNanoEngineGetButtons \<Rightarrow> u8" where
  "call_buttons c h e FnZKeypadButtons = zkeypadButtons c h e"
| "call_buttons c h e FnArduboyButtons = arduboyButtons c h"
| "call_buttons c h e (FnCustom f) = f h"

text \<open>
  Both queries call \<open>m_onButtons\<close> without testing it; the call through a null pointer is
  the error \<open>NullFunctionCall\<close>.
\<close>

definition pressed :: "config \<Rightarrow> hw \<Rightarrow> NanoEngineBase \<Rightarrow> u8 \<Rightarrow> error + bool" where
  "pressed c h e buttons =
     (case m_onButtons e of
        None \<Rightarrow> Inl NullFunctionCall
      | Some f \<Rightarrow> Inr (call_buttons c h e f AND buttons = buttons))"

definition notPressed :: "config \<Rightarrow> hw \<Rightarrow> NanoEngineBase \<Rightarrow> u8 \<Rightarrow> error + bool" where
  "notPressed c h e buttons =
     (case m_onButtons e of
        None \<Rightarrow> Inl NullFunctionCall
      | Some f \<Rightarrow> Inr (call_buttons c h e f AND buttons = 0))"

definition connectCustomKeys ::
  "TNanoEngineGetButtons option \<Rightarrow> NanoEngineBase \<Rightarrow> NanoEngineBase" where
  "connectCustomKeys handler e = e\<lparr>m_onButtons := handler\<rparr>"

definition connectArduboyKeys :: "NanoEngineBase \<Rightarrow> NanoEngineBase" where
  "connectArduboyKeys e = e\<lparr>m_onButtons := Some FnArduboyButtons\<rparr>"

definition connectZKeypad :: "u8 \<Rightarrow> NanoEngineBase \<Rightarrow> NanoEngineBase" where
  "connectZKeypad analogPin e =
     e\<lparr>s_zkeypadPin := analogPin, m_onButtons := Some FnZKeypadButtons\<rparr>"

section \<open>The ST7735 interface\<close>

text \<open>
  \<open>lcd_st7735.h\<close> declares \<open>InterfaceST7735\<close> and documents its operations; their bodies
  are in \<open>lcd_st7735.inl\<close>.  \<open>lcduint_t\<close> is an unsigned integer type of the platform,
  here a word of any length.
\<close>

record 'c window =
  win_x :: 'c
  win_y :: 'c
  win_w :: 'c

text \<open>
  The members \<open>m_dc\<close> (an \<open>int8_t\<close>) and \<open>m_rotation\<close> of the class, the width and
  height of the display \<open>m_base\<close>, the window of the open session, if any, and the bytes
  sent on the bus so far.
\<close>

record 'c InterfaceST7735 =
  m_dc :: "8 word"
  m_rotation :: u8
  base_width :: 'c
  base_height :: 'c
  open_window :: "'c window option"
  bus :: "u8 list"

datatype window_error = WindowAlreadyOpen | OutOfBounds | NoOpenWindow

text \<open>
  Modelled from the spec: the body of \<open>InterfaceST7735::startBlock\<close> (the \<open>startWindow\<close>
  of the spec), which is in \<open>lcd_st7735.inl\<close>.  Opening a window while one is open is an
  error and so is a corner outside the surface; a width of 0 extends the window to the
  right edge, a width beyond it is clipped; the session is opened and left open.  The
  bytes the controller receives for a window are the parameter \<open>encode\<close>.  The header
  declares the operation \<open>void\<close>; the failures of the spec are the \<open>Inl\<close> results.
\<close>

definition startBlock ::
  "('a::len word window \<Rightarrow> u8 list) \<Rightarrow> 'a word \<Rightarrow> 'a word \<Rightarrow> 'a word
     \<Rightarrow> 'a word InterfaceST7735 \<Rightarrow> window_error + 'a word InterfaceST7735" where
  "startBlock encode x y w d =
     (if open_window d \<noteq> None then Inl WindowAlreadyOpen
      else if \<not> (x < base_width d \<and> y < base_height d) then Inl OutOfBounds
      else
        let w0 = (if w = 0 then base_width d - x else w);
            win = \<lparr> win_x = x, win_y = y, win_w = min w0 (base_width d - x) \<rparr>
        in Inr (d\<lparr>open_window := Some win, bus := bus d @ encode win\<rparr>))"

text \<open>
  Modelled from the spec: the body of \<open>InterfaceST7735::nextBlock\<close> (the \<open>nextPage\<close> of
  the spec), which is in \<open>lcd_st7735.inl\<close>.  The header says that for ST7735 it does
  nothing, the spec that it is a no-op for directly-addressed controllers and that any
  call with no open window is a sequencing error.
\<close>

definition nextBlock :: "'a::len word InterfaceST7735 \<Rightarrow> window_error + 'a word InterfaceST7735" where
  "nextBlock d = (case open_window d of None \<Rightarrow> Inl NoOpenWindow | Some win \<Rightarrow> Inr d)"

section \<open>Concrete inputs\<close>

text \<open>One bit for each button, and no Atmega32U4.\<close>

definition onehot_config :: config where
  "onehot_config =
     \<lparr> BUTTON_NONE = 0, BUTTON_DOWN = 1, BUTTON_LEFT = 2, BUTTON_RIGHT = 4,
       BUTTON_UP = 8, BUTTON_A = 16, BUTTON_B = 32, AVR_ATmega32U4 = False \<rparr>"

text \<open>The hardware at clock value \<open>t\<close> with the reading \<open>v\<close> on every analog pin.\<close>

definition hw_at :: "u32 \<Rightarrow> int \<Rightarrow> hw" where
  "hw_at t v = \<lparr> millis = t, analogRead = (\<lambda>pin. v), PINF = 0xFF, PINE = 0xFF, PINB = 0xFF \<rparr>"

text \<open>A custom handler that reports the buttons of mask 5 as held.\<close>

definition held_5 :: "hw \<Rightarrow> u8" where
  "held_5 h = 5"

text \<open>Loop callbacks that leave the static members alone.\<close>

definition idle_body :: "TLoopCallback \<Rightarrow> NanoEngineBase \<Rightarrow> NanoEngineBase" where
  "idle_body f e = e"

text \<open>The engine with a loop callback installed, started at clock value 0.\<close>

definition started_engine :: NanoEngineBase where
  "started_engine = begin_engine (hw_at 0 0) (static_init\<lparr>m_loop := Some 7\<rparr>)"

text \<open>A 128 by 160 display with byte coordinates, no window open, nothing sent.\<close>

definition st7735_128x160 :: "8 word InterfaceST7735" where
  "st7735_128x160 =
     \<lparr> m_dc = 4, m_rotation = 0, base_width = 128, base_height = 160,
       open_window = None, bus = [] \<rparr>"

text \<open>An encoder that sends the three numbers of the window.\<close>

definition plain_encode :: "8 word window \<Rightarrow> u8 list" where
  "plain_encode win = [win_x win, win_y win, win_w win]"

section \<open>Facts about words\<close>

lemma and_eq_self_iff:
  "(s AND m = m) \<longleftrightarrow> (\<forall>i. bit m i \<longrightarrow> bit s i)" for s m :: "'a::len word"
  by (auto simp: bit_eq_iff bit_and_iff dest: bit_imp_le_length)

lemma and_eq_zero_iff:
  "(s AND m = 0) \<longleftrightarrow> (\<forall>i. bit m i \<longrightarrow> \<not> bit s i)" for s m :: "'a::len word"
  by (auto simp: bit_eq_iff bit_and_iff dest: bit_imp_le_length)

lemma unat_ucast_u8: "unat (ucast (d::u8) :: u32) = unat d"
proof -
  have "unat d < 2 ^ 8" using unsigned_less [of d] by simp
  then have "unat d < 2 ^ 32" by simp
  then show ?thesis by (simp add: unsigned_ucast_eq take_bit_nat_eq_self)
qed

lemma due_iff: "(ucast (d::u8) \<le> (x::u32)) \<longleftrightarrow> unat d \<le> unat x"
  by (simp add: word_le_nat_alt unat_ucast_u8)

lemma elapsed_unat:
  fixes t0 tn :: nat
  assumes "t0 \<le> tn" and "tn - t0 < 2 ^ 32"
  shows "unat ((of_nat tn :: u32) - of_nat t0) = tn - t0"
proof -
  have "(of_nat tn :: u32) - of_nat t0 = of_nat (tn - t0)"
    using assms(1) by simp
  then show ?thesis using assms(2) by (simp add: unat_of_nat)
qed

lemma fst_nextFrame:
  "fst (nextFrame body h e) \<longleftrightarrow> unat (m_frameDurationMs e) \<le> unat (millis h - m_lastFrameTs e)"
  by (simp add: nextFrame_def Let_def due_iff)

lemma static_init_simps:
  "m_frameDurationMs static_init = 33" "m_fps static_init = 30" "m_cpuLoad static_init = 0"
  "m_lastFrameTs static_init = 0" "m_onDraw static_init = None"
  "m_onButtons static_init = None" "m_loop static_init = None" "s_zkeypadPin static_init = 0"
  by (simp_all add: static_init_def ENGINE_DEFAULT_FPS_def)

section \<open>Button queries\<close>

text \<open>
  C1: with an input source installed that returns the sample \<open>s\<close>, \<open>pressed(m)\<close> returns
  \<open>(s & m) == m\<close>, which is true exactly when every bit of \<open>m\<close> is set in \<open>s\<close>, and
  \<open>notPressed(m)\<close> returns \<open>(s & m) == 0\<close>, which is true exactly when no bit of \<open>m\<close> is
  set in \<open>s\<close>; for a mask with a bit set in \<open>s\<close> and a bit not set in \<open>s\<close> both return false.
\<close>

theorem button_queries:
  assumes "m_onButtons e = Some f" and "s = call_buttons c h e f"
  shows "pressed c h e m = Inr (s AND m = m)
       \<and> ((s AND m = m) \<longleftrightarrow> (\<forall>i. bit m i \<longrightarrow> bit s i))
       \<and> notPressed c h e m = Inr (s AND m = 0)
       \<and> ((s AND m = 0) \<longleftrightarrow> (\<forall>i. bit m i \<longrightarrow> \<not> bit s i))
       \<and> ((\<exists>i. bit m i \<and> bit s i) \<and> (\<exists>j. bit m j \<and> \<not> bit s j)
            \<longrightarrow> pressed c h e m = Inr False \<and> notPressed c h e m = Inr False)"
proof -
  have p: "pressed c h e m = Inr (s AND m = m)"
    using assms by (simp add: pressed_def)
  have n: "notPressed c h e m = Inr (s AND m = 0)"
    using assms by (simp add: notPressed_def)
  have all: "(s AND m = m) \<longleftrightarrow> (\<forall>i. bit m i \<longrightarrow> bit s i)"
    by (rule and_eq_self_iff)
  have none: "(s AND m = 0) \<longleftrightarrow> (\<forall>i. bit m i \<longrightarrow> \<not> bit s i)"
    by (rule and_eq_zero_iff)
  have mixed: "pressed c h e m = Inr False \<and> notPressed c h e m = Inr False"
    if "(\<exists>i. bit m i \<and> bit s i) \<and> (\<exists>j. bit m j \<and> \<not> bit s j)"
  proof -
    from that have "\<not> (\<forall>i. bit m i \<longrightarrow> bit s i)" and "\<not> (\<forall>i. bit m i \<longrightarrow> \<not> bit s i)"
      by blast+
    with all none have "s AND m \<noteq> m" and "s AND m \<noteq> 0" by simp_all
    with p n show ?thesis by simp
  qed
  from p n all none mixed show ?thesis by blast
qed

theorem button_queries_witness:
  "pressed onehot_config (hw_at 0 1023) (connectCustomKeys (Some (FnCustom held_5)) static_init) 3
     = Inr False
   \<and> notPressed onehot_config (hw_at 0 1023) (connectCustomKeys (Some (FnCustom held_5)) static_init) 3
     = Inr False
   \<and> pressed onehot_config (hw_at 0 1023) (connectCustomKeys (Some (FnCustom held_5)) static_init) 5
     = Inr True
   \<and> notPressed onehot_config (hw_at 0 1023) (connectCustomKeys (Some (FnCustom held_5)) static_init) 2
     = Inr True"
proof -
  let ?e = "connectCustomKeys (Some (FnCustom held_5)) static_init"
  let ?h = "hw_at 0 1023"
  have inst: "m_onButtons ?e = Some (FnCustom held_5)"
    by (simp add: connectCustomKeys_def)
  have smp: "(5::u8) = call_buttons onehot_config ?h ?e (FnCustom held_5)"
    by (simp add: held_5_def)
  have b0: "bit (3::u8) 0 \<and> bit (5::u8) 0" by simp
  have b1: "bit (3::u8) 1 \<and> \<not> bit (5::u8) 1" by (simp add: bit_numeral_rec)
  have mix: "(\<exists>i. bit (3::u8) i \<and> bit (5::u8) i) \<and> (\<exists>j. bit (3::u8) j \<and> \<not> bit (5::u8) j)"
    using b0 b1 by blast
  have a5: "(5::u8) AND 5 = 5" and a2: "(5::u8) AND 2 = 0" by simp_all
  from button_queries [OF inst smp, of 3] mix
  have "pressed onehot_config ?h ?e 3 = Inr False \<and> notPressed onehot_config ?h ?e 3 = Inr False"
    by blast
  moreover from button_queries [OF inst smp, of 5] a5
  have "pressed onehot_config ?h ?e 5 = Inr True" by simp
  moreover from button_queries [OF inst smp, of 2] a2
  have "notPressed onehot_config ?h ?e 2 = Inr True" by simp
  ultimately show ?thesis by blast
qed

section \<open>The frame deadline\<close>

text \<open>
  C2: \<open>nextFrame()\<close> returns true exactly when the elapsed time \<open>millis() - m_lastFrameTs\<close>
  is at least the frame duration; it then invokes the loop callback once if one is
  installed, and invokes nothing otherwise; when the deadline has not elapsed it returns
  false, invokes nothing and leaves the static members as they were.
\<close>

theorem nextFrame_deadline:
  assumes "nextFrame body h e = (due, calls, e')"
  shows "(due \<longleftrightarrow> unat (m_frameDurationMs e) \<le> unat (millis h - m_lastFrameTs e))
       \<and> calls = (if due then (case m_loop e of None \<Rightarrow> [] | Some f \<Rightarrow> [f]) else [])
       \<and> (due \<longrightarrow> (\<forall>f. m_loop e = Some f \<longrightarrow> e' = body f e))
       \<and> (due \<longrightarrow> m_loop e = None \<longrightarrow> e' = e)
       \<and> (\<not> due \<longrightarrow> calls = [] \<and> e' = e)"
  using assms by (auto simp: nextFrame_def Let_def due_iff split: if_splits)

theorem nextFrame_deadline_witness:
  "nextFrame idle_body (hw_at 32 0) (static_init\<lparr>m_loop := Some 7\<rparr>)
     = (False, [], static_init\<lparr>m_loop := Some 7\<rparr>)
   \<and> nextFrame idle_body (hw_at 33 0) (static_init\<lparr>m_loop := Some 7\<rparr>)
     = (True, [7], idle_body 7 (static_init\<lparr>m_loop := Some 7\<rparr>))"
proof -
  let ?e = "static_init\<lparr>m_loop := Some 7\<rparr>"
  obtain d1 c1 e1 where r1: "nextFrame idle_body (hw_at 32 0) ?e = (d1, c1, e1)"
    by (cases "nextFrame idle_body (hw_at 32 0) ?e") blast
  obtain d2 c2 e2 where r2: "nextFrame idle_body (hw_at 33 0) ?e = (d2, c2, e2)"
    by (cases "nextFrame idle_body (hw_at 33 0) ?e") blast
  have v: "m_frameDurationMs ?e = 33" "m_lastFrameTs ?e = 0" "m_loop ?e = Some 7"
    "millis (hw_at 32 0) = 32" "millis (hw_at 33 0) = 33"
    by (simp_all add: static_init_simps hw_at_def)
  from nextFrame_deadline [OF r1] have "\<not> d1 \<and> c1 = [] \<and> e1 = ?e"
    unfolding v by simp
  moreover from nextFrame_deadline [OF r2] have "d2 \<and> c2 = [7] \<and> e2 = idle_body 7 ?e"
    unfolding v by simp
  ultimately show ?thesis using r1 r2 by simp
qed

section \<open>The frame rate\<close>

text \<open>
  From 4 frames per second on the quotient fits the 8-bit field, and the default rate
  of 30 gives 33 ms.
\<close>

lemma setFrameRate_duration_exact:
  assumes "4 \<le> unat fps"
  shows "\<exists>e'. setFrameRate fps e = Inr e' \<and> unat (m_frameDurationMs e') = 1000 div unat fps"
proof -
  from assms have nz: "fps \<noteq> 0" by auto
  from assms have "1000 div unat fps \<le> 1000 div 4" by (rule div_le_mono2 [rotated]) simp
  then have "1000 div unat fps < 256" by simp
  then have "unat (of_nat (1000 div unat fps) :: u8) = 1000 div unat fps"
    by (simp add: unat_of_nat)
  with nz show ?thesis by (simp add: setFrameRate_def)
qed

lemma setFrameRate_30: "setFrameRate 30 e = Inr (e\<lparr>m_fps := 30, m_frameDurationMs := 33\<rparr>)"
  by (simp add: setFrameRate_def)

text \<open>
  C3: after \<open>setFrameRate(fps)\<close> the stored frame duration should be \<open>1000 / fps\<close> for
  every \<open>fps\<close>.  At \<open>fps = 1\<close> the code stores 232, the low eight bits of 1000, and not
  1000.
\<close>

theorem setFrameRate_low_rate_truncated:
  "setFrameRate 1 static_init = Inr (static_init\<lparr>m_fps := 1, m_frameDurationMs := 232\<rparr>)
   \<and> unat (m_frameDurationMs (static_init\<lparr>m_fps := 1, m_frameDurationMs := 232\<rparr>))
       \<noteq> 1000 div unat (1::u8)"
  by (simp add: setFrameRate_def)

text \<open>
  C6, as stated for every frame rate, fails at 0: \<open>setFrameRate(0)\<close> divides by zero and
  returns no state of which anything could be unchanged.
\<close>

theorem setFrameRate_zero_counterexample:
  "setFrameRate 0 started_engine = Inl DivisionByZero"
  by (simp add: setFrameRate_def)

text \<open>
  C6, amended: for every frame rate other than 0, \<open>setFrameRate(fps)\<close> returns and
  writes \<open>m_fps\<close> and \<open>m_frameDurationMs\<close> only: \<open>m_lastFrameTs\<close>, the three callbacks,
  \<open>m_cpuLoad\<close> and the keypad pin are as before, and the next deadline check compares the
  unchanged elapsed time with the new duration.
\<close>

theorem setFrameRate_frame:
  assumes "fps \<noteq> 0"
  shows "\<exists>e'. setFrameRate fps e = Inr e'
          \<and> m_fps e' = fps
          \<and> m_lastFrameTs e' = m_lastFrameTs e
          \<and> m_onDraw e' = m_onDraw e
          \<and> m_onButtons e' = m_onButtons e
          \<and> m_loop e' = m_loop e
          \<and> m_cpuLoad e' = m_cpuLoad e
          \<and> s_zkeypadPin e' = s_zkeypadPin e
          \<and> e' = e\<lparr>m_fps := m_fps e', m_frameDurationMs := m_frameDurationMs e'\<rparr>
          \<and> (fst (nextFrame body h e')
               \<longleftrightarrow> unat (m_frameDurationMs e') \<le> unat (millis h - m_lastFrameTs e))"
  using assms by (simp add: setFrameRate_def fst_nextFrame)

theorem setFrameRate_frame_witness:
  "\<exists>e'. setFrameRate 60 started_engine = Inr e'
     \<and> m_fps e' = 60 \<and> m_lastFrameTs e' = 0 \<and> m_loop e' = Some 7 \<and> m_onButtons e' = None
     \<and> m_cpuLoad e' = 0"
proof -
  have nz: "(60::u8) \<noteq> 0" by simp
  have v: "m_lastFrameTs started_engine = 0" "m_loop started_engine = Some 7"
    "m_onButtons started_engine = None" "m_cpuLoad started_engine = 0"
    by (simp_all add: started_engine_def begin_engine_def static_init_simps hw_at_def)
  from setFrameRate_frame [OF nz, of started_engine idle_body "hw_at 0 0"]
  show ?thesis unfolding v by blast
qed

section \<open>Pacing at 30 frames per second\<close>

text \<open>
  C5, as stated, fails: started at clock value 0 with the default 33 ms, a call of
  \<open>nextFrame()\<close> at 40 ms triggers a pass and leaves \<open>m_lastFrameTs\<close> at 0, not at 40, and
  a second call 5 ms later triggers a second pass.
\<close>

theorem nextFrame_timestamp_counterexample:
  "nextFrame idle_body (hw_at 40 0) started_engine = (True, [7], started_engine)
   \<and> m_lastFrameTs started_engine \<noteq> 40
   \<and> nextFrame idle_body (hw_at 45 0) started_engine = (True, [7], started_engine)"
  by (simp add: nextFrame_def started_engine_def begin_engine_def hw_at_def idle_body_def
      static_init_simps)

text \<open>
  C5, amended: with a frame duration of 33 ms, a call of \<open>nextFrame()\<close> at most 10 ms
  after \<open>begin()\<close> has set \<open>m_lastFrameTs\<close> to the clock triggers no pass and changes
  nothing; a call when at least 40 ms have elapsed since \<open>m_lastFrameTs\<close> returns true and
  invokes the installed loop callback exactly once; and \<open>nextFrame()\<close> itself never
  writes \<open>m_lastFrameTs\<close> or any other static member: when fewer than 33 ms have
  elapsed it returns false, invokes nothing and leaves them as they were, with or
  without a loop callback installed, and otherwise they are afterwards as before when no
  callback is installed, and as the callback has left them when one is.
\<close>

theorem nextFrame_30fps:
  assumes "m_frameDurationMs e = 33"
  shows "(unat d \<le> 10 \<longrightarrow>
            nextFrame body (h\<lparr>millis := millis h + d\<rparr>) (begin_engine h e)
              = (False, [], begin_engine h e))
       \<and> (40 \<le> unat (millis h - m_lastFrameTs e) \<longrightarrow>
            nextFrame body h e
              = (True,
                 (case m_loop e of None \<Rightarrow> [] | Some f \<Rightarrow> [f]),
                 (case m_loop e of None \<Rightarrow> e | Some f \<Rightarrow> body f e)))
       \<and> nextFrame body h e
           = (if 33 \<le> unat (millis h - m_lastFrameTs e)
              then (True,
                    (case m_loop e of None \<Rightarrow> [] | Some f \<Rightarrow> [f]),
                    (case m_loop e of None \<Rightarrow> e | Some f \<Rightarrow> body f e))
              else (False, [], e))"
proof -
  have cmp: "((33::u32) \<le> x) \<longleftrightarrow> 33 \<le> unat x" for x :: u32
    by (simp add: word_le_nat_alt)
  have pin: "nextFrame body h e
      = (if 33 \<le> unat (millis h - m_lastFrameTs e)
         then (True,
               (case m_loop e of None \<Rightarrow> [] | Some f \<Rightarrow> [f]),
               (case m_loop e of None \<Rightarrow> e | Some f \<Rightarrow> body f e))
         else (False, [], e))"
    if "m_frameDurationMs e = 33" for h e
    using that by (cases "m_loop e") (simp_all add: nextFrame_def Let_def cmp)
  have early: "nextFrame body (h\<lparr>millis := millis h + d\<rparr>) (begin_engine h e)
                 = (False, [], begin_engine h e)" if "unat d \<le> 10"
  proof -
    have "m_frameDurationMs (begin_engine h e) = 33"
      using assms by (simp add: begin_engine_def)
    from pin [OF this, of "h\<lparr>millis := millis h + d\<rparr>"] that show ?thesis
      by (simp add: begin_engine_def)
  qed
  have late: "nextFrame body h e
      = (True,
         (case m_loop e of None \<Rightarrow> [] | Some f \<Rightarrow> [f]),
         (case m_loop e of None \<Rightarrow> e | Some f \<Rightarrow> body f e))"
    if "40 \<le> unat (millis h - m_lastFrameTs e)"
    using pin [OF assms, of h] that by simp
  from early late pin [OF assms, of h] show ?thesis by blast
qed

theorem nextFrame_30fps_witness:
  "nextFrame idle_body (hw_at 10 0) started_engine = (False, [], started_engine)
   \<and> nextFrame idle_body (hw_at 32 0) started_engine = (False, [], started_engine)
   \<and> nextFrame idle_body (hw_at 40 0) started_engine
       = (True, [7], idle_body 7 started_engine)
   \<and> nextFrame idle_body (hw_at 40 0) static_init = (True, [], static_init)"
proof -
  have d1: "m_frameDurationMs (static_init\<lparr>m_loop := Some 7\<rparr>) = 33"
    and d2: "m_frameDurationMs started_engine = 33"
    and d3: "m_frameDurationMs static_init = 33"
    by (simp_all add: started_engine_def begin_engine_def static_init_simps)
  have h10: "(hw_at 0 0)\<lparr>millis := millis (hw_at 0 0) + 10\<rparr> = hw_at 10 0"
    by (simp add: hw_at_def)
  have lp: "m_loop started_engine = Some 7" "m_loop static_init = None"
    by (simp_all add: started_engine_def begin_engine_def static_init_simps)
  have el: "40 \<le> unat (millis (hw_at 40 0) - m_lastFrameTs started_engine)"
    "40 \<le> unat (millis (hw_at 40 0) - m_lastFrameTs static_init)"
    "\<not> 33 \<le> unat (millis (hw_at 32 0) - m_lastFrameTs started_engine)"
    by (simp_all add: started_engine_def begin_engine_def hw_at_def static_init_simps)
  have small: "unat (10::u32) \<le> 10" by simp
  from nextFrame_30fps [OF d1, of 10 idle_body "hw_at 0 0"] small
  have a: "nextFrame idle_body (hw_at 10 0) started_engine = (False, [], started_engine)"
    unfolding h10 started_engine_def by blast
  from nextFrame_30fps [OF d2, of 0 idle_body "hw_at 32 0"] el(3)
  have b: "nextFrame idle_body (hw_at 32 0) started_engine = (False, [], started_engine)"
    by simp
  from nextFrame_30fps [OF d2, of 0 idle_body "hw_at 40 0"] el(1) lp(1)
  have c: "nextFrame idle_body (hw_at 40 0) started_engine
      = (True, [7], idle_body 7 started_engine)"
    by simp
  from nextFrame_30fps [OF d3, of 0 idle_body "hw_at 40 0"] el(2) lp(2)
  have d: "nextFrame idle_body (hw_at 40 0) static_init = (True, [], static_init)"
    by simp
  from a b c d show ?thesis by blast
qed

section \<open>Queries without an input source\<close>

text \<open>
  C8: \<open>m_onButtons\<close> is null by default, and \<open>begin()\<close> and \<open>setFrameRate()\<close> leave it so;
  \<open>pressed(m)\<close> and \<open>notPressed(m)\<close> call it untested, so with no input source installed
  either query is a call through a null function pointer, and with one installed either
  returns a value; each of \<open>connectCustomKeys\<close> (given a handler), \<open>connectZKeypad\<close> and
  \<open>connectArduboyKeys\<close> installs one.
\<close>

theorem null_button_source:
  "m_onButtons static_init = None
   \<and> (m_onButtons e = None \<longrightarrow>
         pressed c h e m = Inl NullFunctionCall \<and> notPressed c h e m = Inl NullFunctionCall)
   \<and> (m_onButtons e \<noteq> None \<longrightarrow>
         (\<exists>b. pressed c h e m = Inr b) \<and> (\<exists>b. notPressed c h e m = Inr b))
   \<and> m_onButtons (begin_engine h e) = m_onButtons e
   \<and> (\<forall>e'. setFrameRate fps e = Inr e' \<longrightarrow> m_onButtons e' = m_onButtons e)
   \<and> m_onButtons (connectCustomKeys (Some f) e) \<noteq> None
   \<and> m_onButtons (connectZKeypad pin e) \<noteq> None
   \<and> m_onButtons (connectArduboyKeys e) \<noteq> None"
proof -
  have dflt: "m_onButtons static_init = None"
    by (simp add: static_init_simps)
  have null: "pressed c h e m = Inl NullFunctionCall \<and> notPressed c h e m = Inl NullFunctionCall"
    if "m_onButtons e = None"
    using that by (simp add: pressed_def notPressed_def)
  have inst: "(\<exists>b. pressed c h e m = Inr b) \<and> (\<exists>b. notPressed c h e m = Inr b)"
    if "m_onButtons e \<noteq> None"
    using that by (auto simp: pressed_def notPressed_def)
  have keep: "m_onButtons (begin_engine h e) = m_onButtons e"
    "\<forall>e'. setFrameRate fps e = Inr e' \<longrightarrow> m_onButtons e' = m_onButtons e"
    by (auto simp: begin_engine_def setFrameRate_def split: if_splits)
  have conn: "m_onButtons (connectCustomKeys (Some f) e) \<noteq> None"
    "m_onButtons (connectZKeypad pin e) \<noteq> None"
    "m_onButtons (connectArduboyKeys e) \<noteq> None"
    by (simp_all add: connectCustomKeys_def connectZKeypad_def connectArduboyKeys_def)
  from dflt null inst keep conn show ?thesis by blast
qed

theorem null_button_source_witness:
  "pressed onehot_config (hw_at 0 0) (begin_engine (hw_at 0 0) static_init) 1 = Inl NullFunctionCall
   \<and> notPressed onehot_config (hw_at 0 0) (begin_engine (hw_at 0 0) static_init) 1
       = Inl NullFunctionCall
   \<and> (\<exists>b. pressed onehot_config (hw_at 0 0) (connectZKeypad 3 static_init) 1 = Inr b)"
proof -
  let ?h = "hw_at 0 0"
  have n: "m_onButtons (begin_engine ?h static_init) = None"
    using null_button_source [where e = static_init and h = ?h] by simp
  have "pressed onehot_config ?h (begin_engine ?h static_init) 1 = Inl NullFunctionCall
      \<and> notPressed onehot_config ?h (begin_engine ?h static_init) 1 = Inl NullFunctionCall"
    using null_button_source [where e = "begin_engine ?h static_init" and c = onehot_config
        and h = ?h and m = 1] n
    by blast
  moreover have "\<exists>b. pressed onehot_config ?h (connectZKeypad 3 static_init) 1 = Inr b"
    using null_button_source [where e = "connectZKeypad 3 static_init" and c = onehot_config
        and h = ?h and m = 1]
      null_button_source [where e = static_init and pin = 3]
    by blast
  ultimately show ?thesis by blast
qed

section \<open>The clock wraps around\<close>

lemma wrap_diff_nat:
  fixes a b :: nat
  assumes "a < 2 ^ 32" and "b < 2 ^ 32"
  shows "(if b \<le> a then a - b else a + 2 ^ 32 - b) = (a + 2 ^ 32 - b) mod 2 ^ 32"
proof (cases "b \<le> a")
  case True
  then have eq: "a + 2 ^ 32 - b = (a - b) + 2 ^ 32" by simp
  have "(a + 2 ^ 32 - b) mod 2 ^ 32 = (a - b) mod 2 ^ 32"
    by (subst eq) (rule mod_add_self2)
  moreover have "a - b < 2 ^ 32" using assms(1) by simp
  ultimately show ?thesis using True by simp
next
  case False
  then have "a + 2 ^ 32 - b < 2 ^ 32" using assms(2) by simp
  with False show ?thesis by simp
qed

lemma unat_u32_less: "unat (x::u32) < 2 ^ 32"
  using unsigned_less [of x] by simp

text \<open>
  C9: the elapsed time in \<open>nextFrame()\<close> is the difference of the two 32-bit timestamps
  modulo \<open>2^32\<close>; when the clock and \<open>m_lastFrameTs\<close> are the low 32 bits of two true
  times less than \<open>2^32\<close> ms apart, it is the true elapsed time, and \<open>nextFrame()\<close> returns
  true exactly when the true elapsed time is at least the frame duration, whether or
  not the clock has wrapped in between.
\<close>

theorem nextFrame_wraparound:
  fixes t0 tn :: nat
  assumes "t0 \<le> tn" and "tn - t0 < 2 ^ 32"
    and "m_lastFrameTs e = of_nat t0" and "millis h = of_nat tn"
  shows "unat (millis h - m_lastFrameTs e) = tn - t0
       \<and> (fst (nextFrame body h e) \<longleftrightarrow> unat (m_frameDurationMs e) \<le> tn - t0)
       \<and> (fst (nextFrame body h e) \<longleftrightarrow>
            unat (m_frameDurationMs e)
              \<le> (unat (millis h) + 2 ^ 32 - unat (m_lastFrameTs e)) mod 2 ^ 32)"
proof -
  have el: "unat (millis h - m_lastFrameTs e) = tn - t0"
    using assms by (simp add: elapsed_unat)
  have md: "unat (millis h - m_lastFrameTs e)
      = (unat (millis h) + 2 ^ 32 - unat (m_lastFrameTs e)) mod 2 ^ 32"
  proof -
    have "unat (millis h - m_lastFrameTs e)
        = (if unat (m_lastFrameTs e) \<le> unat (millis h)
           then unat (millis h) - unat (m_lastFrameTs e)
           else unat (millis h) + 2 ^ 32 - unat (m_lastFrameTs e))"
      by (simp add: unat_sub_if_size word_size)
    also have "\<dots> = (unat (millis h) + 2 ^ 32 - unat (m_lastFrameTs e)) mod 2 ^ 32"
      by (rule wrap_diff_nat [OF unat_u32_less unat_u32_less])
    finally show ?thesis .
  qed
  show ?thesis
    unfolding fst_nextFrame using el md by simp
qed

theorem nextFrame_wraparound_witness:
  "fst (nextFrame idle_body (hw_at 30 0) (static_init\<lparr>m_lastFrameTs := 4294967286\<rparr>))
   \<and> \<not> fst (nextFrame idle_body (hw_at 20 0) (static_init\<lparr>m_lastFrameTs := 4294967286\<rparr>))"
proof -
  let ?e = "static_init\<lparr>m_lastFrameTs := 4294967286\<rparr>"
  have l: "m_lastFrameTs ?e = of_nat 4294967286" by simp
  have m30: "millis (hw_at 30 0) = of_nat 4294967326" by (simp add: hw_at_def)
  have m20: "millis (hw_at 20 0) = of_nat 4294967316" by (simp add: hw_at_def)
  have d: "unat (m_frameDurationMs ?e) = 33" by (simp add: static_init_simps)
  have o1: "(4294967286::nat) \<le> 4294967326" "(4294967326::nat) - 4294967286 < 2 ^ 32" by simp_all
  have o2: "(4294967286::nat) \<le> 4294967316" "(4294967316::nat) - 4294967286 < 2 ^ 32" by simp_all
  from nextFrame_wraparound [OF o1 l m30, of idle_body]
  have a: "fst (nextFrame idle_body (hw_at 30 0) ?e)" unfolding d by simp
  from nextFrame_wraparound [OF o2 l m20, of idle_body]
  have b: "\<not> fst (nextFrame idle_body (hw_at 20 0) ?e)" unfolding d by simp
  from a b show ?thesis by blast
qed

section \<open>The Z-keypad\<close>

text \<open>
  C10: for an analog reading \<open>v\<close>, \<open>zkeypadButtons()\<close> returns the button of the first
  threshold that \<open>v\<close> is below, in the order 100 RIGHT, 200 UP, 400 DOWN, 600 LEFT, 800 A,
  and \<open>BUTTON_NONE\<close> from 800 on; the result is always one of these six constants, and so
  never \<open>BUTTON_B\<close>, the constants being distinct.
\<close>

theorem zkeypad_decoder:
  assumes "v = analogRead h (s_zkeypadPin e)"
  shows "(v < 100 \<longrightarrow> zkeypadButtons c h e = BUTTON_RIGHT c)
       \<and> (100 \<le> v \<and> v < 200 \<longrightarrow> zkeypadButtons c h e = BUTTON_UP c)
       \<and> (200 \<le> v \<and> v < 400 \<longrightarrow> zkeypadButtons c h e = BUTTON_DOWN c)
       \<and> (400 \<le> v \<and> v < 600 \<longrightarrow> zkeypadButtons c h e = BUTTON_LEFT c)
       \<and> (600 \<le> v \<and> v < 800 \<longrightarrow> zkeypadButtons c h e = BUTTON_A c)
       \<and> (800 \<le> v \<longrightarrow> zkeypadButtons c h e = BUTTON_NONE c)
       \<and> zkeypadButtons c h e
           \<in> {BUTTON_RIGHT c, BUTTON_UP c, BUTTON_DOWN c, BUTTON_LEFT c, BUTTON_A c, BUTTON_NONE c}
       \<and> (BUTTON_B c
             \<notin> {BUTTON_RIGHT c, BUTTON_UP c, BUTTON_DOWN c, BUTTON_LEFT c, BUTTON_A c, BUTTON_NONE c}
           \<longrightarrow> zkeypadButtons c h e \<noteq> BUTTON_B c)"
  using assms by (auto simp: zkeypadButtons_def Let_def)

theorem zkeypad_decoder_witness:
  "zkeypadButtons onehot_config (hw_at 0 150) (connectZKeypad 3 static_init) = 8
   \<and> zkeypadButtons onehot_config (hw_at 0 150) (connectZKeypad 3 static_init) \<noteq> 32
   \<and> zkeypadButtons onehot_config (hw_at 0 1023) (connectZKeypad 3 static_init) = 0"
proof -
  let ?e = "connectZKeypad 3 static_init"
  have r1: "(150::int) = analogRead (hw_at 0 150) (s_zkeypadPin ?e)"
    and r2: "(1023::int) = analogRead (hw_at 0 1023) (s_zkeypadPin ?e)"
    by (simp_all add: hw_at_def)
  have k: "BUTTON_UP onehot_config = 8" "BUTTON_NONE onehot_config = 0"
    "BUTTON_B onehot_config = 32" "BUTTON_RIGHT onehot_config = 4"
    "BUTTON_DOWN onehot_config = 1" "BUTTON_LEFT onehot_config = 2" "BUTTON_A onehot_config = 16"
    by (simp_all add: onehot_config_def)
  from zkeypad_decoder [OF r1, of onehot_config]
  have a: "zkeypadButtons onehot_config (hw_at 0 150) ?e = 8
      \<and> zkeypadButtons onehot_config (hw_at 0 150) ?e \<noteq> 32"
    unfolding k by simp
  from zkeypad_decoder [OF r2, of onehot_config]
  have b: "zkeypadButtons onehot_config (hw_at 0 1023) ?e = 0"
    unfolding k by simp
  from a b show ?thesis by blast
qed

section \<open>Windows of the ST7735\<close>

text \<open>
  C4: for \<open>x\<close> within the width of the surface, \<open>startBlock\<close> with width 0 is the same
  call as with width \<open>surfaceWidth - x\<close>; when it opens a window, the window holds the
  width \<open>surfaceWidth - x\<close> from then on.
\<close>

theorem startBlock_zero_width:
  assumes "x < base_width d"
  shows "startBlock encode x y 0 d = startBlock encode x y (base_width d - x) d
       \<and> (open_window d = None \<and> y < base_height d \<longrightarrow>
            startBlock encode x y 0 d
              = Inr (d\<lparr>open_window := Some \<lparr>win_x = x, win_y = y, win_w = base_width d - x\<rparr>,
                       bus := bus d @ encode \<lparr>win_x = x, win_y = y, win_w = base_width d - x\<rparr>\<rparr>))"
  using assms by (simp add: startBlock_def Let_def)

theorem startBlock_zero_width_witness:
  "startBlock plain_encode 28 0 0 st7735_128x160 = startBlock plain_encode 28 0 100 st7735_128x160
   \<and> startBlock plain_encode 28 0 0 st7735_128x160
       = Inr (st7735_128x160\<lparr>open_window := Some \<lparr>win_x = 28, win_y = 0, win_w = 100\<rparr>,
                              bus := [28, 0, 100]\<rparr>)"
proof -
  have x: "(28::8 word) < base_width st7735_128x160" by (simp add: st7735_128x160_def)
  have v: "base_width st7735_128x160 - 28 = 100" "open_window st7735_128x160 = None"
    "(0::8 word) < base_height st7735_128x160" "bus st7735_128x160 = []"
    by (simp_all add: st7735_128x160_def)
  have enc: "plain_encode \<lparr>win_x = 28, win_y = 0, win_w = 100\<rparr> = [28, 0, 100]"
    by (simp add: plain_encode_def)
  note t = startBlock_zero_width [OF x, of plain_encode 0]
  from t have t1: "startBlock plain_encode 28 0 0 st7735_128x160
      = startBlock plain_encode 28 0 (base_width st7735_128x160 - 28) st7735_128x160"
    by (rule conjunct1)
  from t have t2: "open_window st7735_128x160 = None \<and> 0 < base_height st7735_128x160 \<longrightarrow>
      startBlock plain_encode 28 0 0 st7735_128x160
        = Inr (st7735_128x160\<lparr>open_window :=
                  Some \<lparr>win_x = 28, win_y = 0, win_w = base_width st7735_128x160 - 28\<rparr>,
                bus := bus st7735_128x160
                  @ plain_encode \<lparr>win_x = 28, win_y = 0, win_w = base_width st7735_128x160 - 28\<rparr>\<rparr>)"
    by (rule conjunct2)
  from t1 have a: "startBlock plain_encode 28 0 0 st7735_128x160
      = startBlock plain_encode 28 0 100 st7735_128x160"
    by (simp only: v(1))
  from t2 v enc have b: "startBlock plain_encode 28 0 0 st7735_128x160
      = Inr (st7735_128x160\<lparr>open_window := Some \<lparr>win_x = 28, win_y = 0, win_w = 100\<rparr>,
                             bus := [28, 0, 100]\<rparr>)"
    by simp
  from a b show ?thesis by (rule conjI)
qed

text \<open>
  C7: with a window open, \<open>nextBlock()\<close> of the ST7735 sends no bytes and leaves the
  window, the rotation, the data/command pin and the geometry as they were.
\<close>

theorem nextBlock_noop:
  assumes "open_window d = Some win"
  shows "\<exists>d'. nextBlock d = Inr d'
          \<and> bus d' = bus d
          \<and> open_window d' = Some win
          \<and> m_rotation d' = m_rotation d
          \<and> m_dc d' = m_dc d
          \<and> base_width d' = base_width d
          \<and> base_height d' = base_height d
          \<and> d' = d"
  using assms by (simp add: nextBlock_def)

theorem nextBlock_noop_witness:
  "\<exists>d. startBlock plain_encode 28 0 0 st7735_128x160 = Inr d
     \<and> nextBlock d = Inr d \<and> bus d = [28, 0, 100]
     \<and> open_window d = Some \<lparr>win_x = 28, win_y = 0, win_w = 100\<rparr>"
proof -
  let ?d = "st7735_128x160\<lparr>open_window := Some \<lparr>win_x = 28, win_y = 0, win_w = 100\<rparr>,
                           bus := [28, 0, 100]\<rparr>"
  have s: "startBlock plain_encode 28 0 0 st7735_128x160 = Inr ?d"
    by (simp add: startBlock_def st7735_128x160_def plain_encode_def)
  have w: "open_window ?d = Some \<lparr>win_x = 28, win_y = 0, win_w = 100\<rparr>" by simp
  from nextBlock_noop [OF w] have "nextBlock ?d = Inr ?d" by blast
  with s show ?thesis by simp
qed

end
